theory Spec2Isabelle
  imports Main
begin

section \<open>JavaScript values\<close>

text \<open>
  The directives and services of jscharting-angularjs pass option objects, series arrays
  and callbacks around. A value is modelled as a finite tree. Numbers are integers.
  \<open>JFun src\<close> is a function written \<open>function src\<close> (all functions of the sources
  are function expressions); its text identifies it. \<open>JCyc\<close> stands for a reference
  from inside an object or array back to one of the containers that enclose it, the
  only way a cyclic structure arises. Objects keep their keys in insertion order.
\<close>

datatype jsval =
    JUndefined
  | JNull
  | JBool bool
  | JNum int
  | JStr string
  | JFun string
  | JArr "jsval list"
  | JObj "(string \<times> jsval) list"
  | JCyc

datatype exn = TypeError | RangeError | EngineError | OutsideModel

fun typeof :: "jsval \<Rightarrow> string" where
  "typeof JUndefined = ''undefined''"
| "typeof JNull = ''object''"
| "typeof (JBool b) = ''boolean''"
| "typeof (JNum n) = ''number''"
| "typeof (JStr s) = ''string''"
| "typeof (JFun f) = ''function''"
| "typeof (JArr xs) = ''object''"
| "typeof (JObj kvs) = ''object''"
| "typeof JCyc = ''object''"

fun truthy :: "jsval \<Rightarrow> bool" where
  "truthy JUndefined = False"
| "truthy JNull = False"
| "truthy (JBool b) = b"
| "truthy (JNum n) = (n \<noteq> 0)"
| "truthy (JStr s) = (s \<noteq> [])"
| "truthy (JFun f) = True"
| "truthy (JArr xs) = True"
| "truthy (JObj kvs) = True"
| "truthy JCyc = True"

subsection \<open>Number and string conversion\<close>

definition digit_char :: "nat \<Rightarrow> char" where
  "digit_char d = ''0123456789'' ! d"

fun digits :: "nat \<Rightarrow> string" where
  "digits n = (if n < 10 then [digit_char n] else digits (n div 10) @ [digit_char (n mod 10)])"

definition show_int :: "int \<Rightarrow> string" where
  "show_int i = (if i < 0 then CHR ''-'' # digits (nat (- i)) else digits (nat i))"

fun join :: "string \<Rightarrow> string list \<Rightarrow> string" where
  "join sep [] = []"
| "join sep [x] = x"
| "join sep (x # y # xs) = x @ sep @ join sep (y # xs)"

text \<open>
  \<open>String(v)\<close>. An array is joined with commas, \<open>null\<close> and \<open>undefined\<close> elements
  giving the empty string; a plain object gives \<open>[object Object]\<close>. A back reference is
  only reached while the arrays that enclose it are being joined, where the engines'
  cycle check yields the empty string.
\<close>

fun js_String :: "jsval \<Rightarrow> string" and join_elems :: "jsval list \<Rightarrow> string list" where
  "js_String JUndefined = ''undefined''"
| "js_String JNull = ''null''"
| "js_String (JBool b) = (if b then ''true'' else ''false'')"
| "js_String (JNum n) = show_int n"
| "js_String (JStr s) = s"
| "js_String (JFun src) = ''function'' @ src"
| "js_String (JArr xs) = join '','' (join_elems xs)"
| "js_String (JObj kvs) = ''[object Object]''"
| "js_String JCyc = []"
| "join_elems [] = []"
| "join_elems (x # xs) =
     (if x = JUndefined \<or> x = JNull then [] else js_String x) # join_elems xs"

subsection \<open>JSON.stringify\<close>

definition hex_char :: "nat \<Rightarrow> char" where
  "hex_char d = ''0123456789abcdef'' ! d"

definition json_escape :: "char \<Rightarrow> string" where
  "json_escape c =
     (if c = CHR 0x22 then [CHR 0x5C, CHR 0x22]
      else if c = CHR 0x5C then [CHR 0x5C, CHR 0x5C]
      else if c = CHR 0x08 then [CHR 0x5C, CHR ''b'']
      else if c = CHR 0x0C then [CHR 0x5C, CHR ''f'']
      else if c = CHR 0x0A then [CHR 0x5C, CHR ''n'']
      else if c = CHR 0x0D then [CHR 0x5C, CHR ''r'']
      else if c = CHR 0x09 then [CHR 0x5C, CHR ''t'']
      else if (of_char c :: nat) < 32
        then CHR 0x5C # ''u00'' @ [hex_char (of_char c div 16), hex_char (of_char c mod 16)]
      else [c])"

definition json_quote :: "string \<Rightarrow> string" where
  "json_quote s = CHR 0x22 # concat (map json_escape s) @ [CHR 0x22]"

text \<open>
  The three outcomes of serialising one property value: a \<open>TypeError\<close> for a cyclic
  structure, \<open>undefined\<close> for a value JSON leaves out, or the text.
\<close>

datatype json_result = JsonThrow | JsonUndefined | JsonText string

fun json_value :: "jsval \<Rightarrow> json_result"
  and json_elems :: "jsval list \<Rightarrow> string list option"
  and json_fields :: "(string \<times> jsval) list \<Rightarrow> string list option" where
  "json_value JUndefined = JsonUndefined"
| "json_value (JFun f) = JsonUndefined"
| "json_value JNull = JsonText ''null''"
| "json_value (JBool b) = JsonText (if b then ''true'' else ''false'')"
| "json_value (JNum n) = JsonText (show_int n)"
| "json_value (JStr s) = JsonText (json_quote s)"
| "json_value JCyc = JsonThrow"
| "json_value (JArr xs) =
     (case json_elems xs of
        None \<Rightarrow> JsonThrow
      | Some ts \<Rightarrow> JsonText (''['' @ join '','' ts @ '']''))"
| "json_value (JObj kvs) =
     (case json_fields kvs of
        None \<Rightarrow> JsonThrow
      | Some ts \<Rightarrow> JsonText (''{'' @ join '','' ts @ ''}''))"
| "json_elems [] = Some []"
| "json_elems (x # xs) =
     (case json_value x of
        JsonThrow \<Rightarrow> None
      | JsonUndefined \<Rightarrow> map_option (Cons ''null'') (json_elems xs)
      | JsonText t \<Rightarrow> map_option (Cons t) (json_elems xs))"
| "json_fields [] = Some []"
| "json_fields ((k, v) # kvs) =
     (case json_value v of
        JsonThrow \<Rightarrow> None
      | JsonUndefined \<Rightarrow> json_fields kvs
      | JsonText t \<Rightarrow> map_option (Cons (json_quote k @ '':'' @ t)) (json_fields kvs))"

definition JSON_stringify :: "jsval \<Rightarrow> json_result" where
  "JSON_stringify v = json_value v"

section \<open>jscPerformance.computeHash\<close>

text \<open>
  The try block returns what \<open>JSON.stringify\<close> returns; the catch block returns
  \<open>String(obj)\<close>. The result is a JavaScript value: a string, or \<open>undefined\<close> where
  \<open>JSON.stringify\<close> returns that.
\<close>

definition computeHash :: "jsval \<Rightarrow> jsval" where
  "computeHash obj =
     (if obj = JNull \<or> obj = JUndefined then JStr ''null''
      else if typeof obj \<noteq> ''object'' then JStr (js_String obj)
      else (case JSON_stringify obj of
              JsonText s \<Rightarrow> JStr s
            | JsonUndefined \<Rightarrow> JUndefined
            | JsonThrow \<Rightarrow> JStr (js_String obj)))"

section \<open>Objects and the AngularJS helpers\<close>

text \<open>
  Property reads and writes. The sources are strict-mode code, so a write to a property
  of a primitive raises a \<open>TypeError\<close>, as does any access through \<open>null\<close> or
  \<open>undefined\<close>. A named property stored on an array or on a function, and the
  properties behind a back reference, have no representation here: such an access gives
  \<open>OutsideModel\<close>. Property names are taken not to be array indices and not to be
  members of the built-in prototypes.
\<close>

fun upd :: "'k \<Rightarrow> 'v \<Rightarrow> ('k \<times> 'v) list \<Rightarrow> ('k \<times> 'v) list" where
  "upd k v [] = [(k, v)]"
| "upd k v ((k', v') # kvs) = (if k = k' then (k, v) # kvs else (k', v') # upd k v kvs)"

definition lookup :: "(string \<times> jsval) list \<Rightarrow> string \<Rightarrow> jsval" where
  "lookup kvs k = (case map_of kvs k of None \<Rightarrow> JUndefined | Some v \<Rightarrow> v)"

fun prop_get :: "jsval \<Rightarrow> string \<Rightarrow> exn + jsval" where
  "prop_get JUndefined k = Inl TypeError"
| "prop_get JNull k = Inl TypeError"
| "prop_get (JObj kvs) k = Inr (lookup kvs k)"
| "prop_get JCyc k = Inl OutsideModel"
| "prop_get v k = Inr JUndefined"

fun prop_set :: "jsval \<Rightarrow> string \<Rightarrow> jsval \<Rightarrow> exn + jsval" where
  "prop_set (JObj kvs) k v = Inr (JObj (upd k v kvs))"
| "prop_set (JArr xs) k v = Inl OutsideModel"
| "prop_set (JFun f) k v = Inl OutsideModel"
| "prop_set JCyc k v = Inl OutsideModel"
| "prop_set d k v = Inl TypeError"

fun prop_delete :: "jsval \<Rightarrow> string \<Rightarrow> jsval" where
  "prop_delete (JObj kvs) k = JObj (filter (\<lambda>kv. fst kv \<noteq> k) kvs)"
| "prop_delete d k = d"

definition bindE :: "'e + 'a \<Rightarrow> ('a \<Rightarrow> 'e + 'b) \<Rightarrow> 'e + 'b" where
  "bindE m f = (case m of Inl e \<Rightarrow> Inl e | Inr x \<Rightarrow> f x)"

text \<open>
  \<open>isObject\<close>, \<open>isArray\<close> and \<open>setHashKey\<close> of AngularJS.
\<close>

fun isObject :: "jsval \<Rightarrow> bool" where
  "isObject (JArr xs) = True"
| "isObject (JObj kvs) = True"
| "isObject JCyc = True"
| "isObject v = False"

fun isArray :: "jsval \<Rightarrow> bool" where
  "isArray (JArr xs) = True"
| "isArray v = False"

definition setHashKey :: "jsval \<Rightarrow> jsval \<Rightarrow> exn + jsval" where
  "setHashKey obj h =
     (if truthy h then prop_set obj ''$$hashKey'' h else Inr (prop_delete obj ''$$hashKey''))"

text \<open>
  \<open>angular.copy(source)\<close>: a deep copy. Primitives and functions are returned as they
  are, cycles are kept, and \<open>setHashKey\<close> removes \<open>$$hashKey\<close> from every copied object.
\<close>

fun angular_copy :: "jsval \<Rightarrow> jsval"
  and copy_fields :: "(string \<times> jsval) list \<Rightarrow> (string \<times> jsval) list" where
  "angular_copy (JArr xs) = JArr (map angular_copy xs)"
| "angular_copy (JObj kvs) = JObj (copy_fields kvs)"
| "angular_copy v = v"
| "copy_fields [] = []"
| "copy_fields ((k, v) # kvs) =
     (if k = ''$$hashKey'' then copy_fields kvs else (k, angular_copy v) # copy_fields kvs)"

text \<open>
  \<open>angular.merge(dst, src)\<close> is \<open>baseExtend(dst, [src], true)\<close> of AngularJS, which is a
  library and not part of the repository; the model follows its source. The keys of
  \<open>src\<close> are visited in order. A value that is an object (an array counts as one) is
  merged recursively into \<open>dst[key]\<close>, an empty array or object being stored there first
  when \<open>dst[key]\<close> is not an object; any other value is assigned. The keys of a source
  array are its indices, so an array is merged into an array index by index. A source
  that looks like a DOM node or a jqLite element is cloned by a method call, which is
  outside this model, and a cyclic source recurses until the stack overflows.
\<close>

definition dom_like :: "jsval \<Rightarrow> bool" where
  "dom_like v =
     (case v of
        JObj kvs \<Rightarrow> truthy (lookup kvs ''nodeName'')
          \<or> (truthy (lookup kvs ''prop'') \<and> truthy (lookup kvs ''attr'') \<and> truthy (lookup kvs ''find''))
      | _ \<Rightarrow> False)"

fun elem_get :: "jsval \<Rightarrow> nat \<Rightarrow> exn + jsval" where
  "elem_get (JArr ys) i = Inr (if i < length ys then ys ! i else JUndefined)"
| "elem_get JUndefined i = Inl TypeError"
| "elem_get JNull i = Inl TypeError"
| "elem_get (JObj kvs) i = Inl OutsideModel"
| "elem_get JCyc i = Inl OutsideModel"
| "elem_get v i = Inr JUndefined"

fun elem_set :: "jsval \<Rightarrow> nat \<Rightarrow> jsval \<Rightarrow> exn + jsval" where
  "elem_set (JArr ys) i v =
     (if i < length ys then Inr (JArr (ys[i := v]))
      else if i = length ys then Inr (JArr (ys @ [v]))
      else Inl OutsideModel)"
| "elem_set (JObj kvs) i v = Inl OutsideModel"
| "elem_set (JFun f) i v = Inl OutsideModel"
| "elem_set JCyc i v = Inl OutsideModel"
| "elem_set d i v = Inl TypeError"

definition fresh_for :: "jsval \<Rightarrow> jsval \<Rightarrow> jsval" where
  "fresh_for cur src = (if isObject cur then cur else if isArray src then JArr [] else JObj [])"

fun baseExtend :: "jsval \<Rightarrow> jsval \<Rightarrow> exn + jsval"
  and extend_fields :: "jsval \<Rightarrow> (string \<times> jsval) list \<Rightarrow> exn + jsval"
  and extend_elems :: "jsval \<Rightarrow> nat \<Rightarrow> jsval list \<Rightarrow> exn + jsval" where
  "baseExtend dst (JObj kvs) =
     bindE (prop_get dst ''$$hashKey'') (\<lambda>h.
     bindE (extend_fields dst kvs) (\<lambda>d. setHashKey d h))"
| "baseExtend dst (JArr xs) =
     bindE (prop_get dst ''$$hashKey'') (\<lambda>h.
     bindE (extend_elems dst 0 xs) (\<lambda>d. setHashKey d h))"
| "baseExtend dst JCyc = Inl RangeError"
| "baseExtend dst src = bindE (prop_get dst ''$$hashKey'') (\<lambda>h. setHashKey dst h)"
| "extend_fields dst [] = Inr dst"
| "extend_fields dst ((key, src) # kvs) =
     (if isObject src then
        (if dom_like src then Inl OutsideModel
         else if key = ''__proto__'' then extend_fields dst kvs
         else
           (case prop_get dst key of
              Inl e \<Rightarrow> Inl e
            | Inr cur \<Rightarrow>
                (case baseExtend (fresh_for cur src) src of
                   Inl e \<Rightarrow> Inl e
                 | Inr m \<Rightarrow>
                     (case prop_set dst key m of
                        Inl e \<Rightarrow> Inl e
                      | Inr d \<Rightarrow> extend_fields d kvs))))
      else
        (case prop_set dst key src of
           Inl e \<Rightarrow> Inl e
         | Inr d \<Rightarrow> extend_fields d kvs))"
| "extend_elems dst i [] = Inr dst"
| "extend_elems dst i (src # xs) =
     (if isObject src then
        (if dom_like src then Inl OutsideModel
         else
           (case elem_get dst i of
              Inl e \<Rightarrow> Inl e
            | Inr cur \<Rightarrow>
                (case baseExtend (fresh_for cur src) src of
                   Inl e \<Rightarrow> Inl e
                 | Inr m \<Rightarrow>
                     (case elem_set dst i m of
                        Inl e \<Rightarrow> Inl e
                      | Inr d \<Rightarrow> extend_elems d (Suc i) xs))))
      else
        (case elem_set dst i src of
           Inl e \<Rightarrow> Inl e
         | Inr d \<Rightarrow> extend_elems d (Suc i) xs))"

definition angular_merge :: "jsval \<Rightarrow> jsval \<Rightarrow> exn + jsval" where
  "angular_merge dst src = baseExtend dst src"

section \<open>ConfigBuilder and jscConfig\<close>


definition ConfigBuilder_build :: "jsval \<Rightarrow> jsval" where
  "ConfigBuilder_build config = angular_copy config"

definition initial_defaults :: jsval where
  "initial_defaults =
     JObj [(''debug'', JBool False), (''animation'', JObj [(''duration'', JNum 400)])]"

definition mergeWithDefaults :: "jsval \<Rightarrow> jsval \<Rightarrow> exn + jsval" where
  "mergeWithDefaults defaults config =
     (let result = angular_copy defaults
      in if truthy config then angular_merge result config else Inr result)"

section \<open>Building a configuration from the scope\<close>

text \<open>
  A directive's isolate scope is the list of its bindings; a binding that the element
  does not set reads as \<open>undefined\<close>. A \<open>buildConfig\<close> function is a sequence of
  statements on the \<open>config\<close> object, each of which may raise. \<open>assign k v\<close> is
  \<open>config.k = v\<close>; \<open>within k body\<close> is \<open>config.k = config.k || {}\<close> followed by the
  statements \<open>body\<close> on \<open>config.k\<close>; \<open>cond c st\<close> is \<open>if (c) st\<close>.
\<close>

type_synonym scope = "(string \<times> jsval) list"

type_synonym stmt = "jsval \<Rightarrow> exn + jsval"

definition or_empty :: "jsval \<Rightarrow> jsval" where
  "or_empty v = (if truthy v then v else JObj [])"

definition assign :: "string \<Rightarrow> jsval \<Rightarrow> stmt" where
  "assign k v config = prop_set config k v"

definition cond :: "bool \<Rightarrow> stmt \<Rightarrow> stmt" where
  "cond c st config = (if c then st config else Inr config)"

fun seq :: "stmt list \<Rightarrow> stmt" where
  "seq [] config = Inr config"
| "seq (st # sts) config = bindE (st config) (seq sts)"

definition within :: "string \<Rightarrow> stmt \<Rightarrow> stmt" where
  "within k body config =
     bindE (prop_get config k) (\<lambda>cur.
     bindE (prop_set config k (or_empty cur)) (\<lambda>config1.
     bindE (body (or_empty cur)) (\<lambda>sub. prop_set config1 k sub)))"

text \<open>
  The handler a directive stores for the scope callback \<open>name\<close>: a function that defers,
  through \<open>$timeout\<close>, a call of that callback.
\<close>

definition wrapper :: "string \<Rightarrow> jsval" where
  "wrapper name = JFun (''(e) { $timeout(function() { scope.'' @ name @ ''(...); }); }'')"

definition wire :: "scope \<Rightarrow> string \<Rightarrow> string \<Rightarrow> stmt" where
  "wire sc name event = cond (truthy (lookup sc name)) (assign event (wrapper name))"

definition apply_title :: "scope \<Rightarrow> stmt" where
  "apply_title sc =
     cond (truthy (lookup sc ''title''))
       (within ''title'' (within ''label'' (assign ''text'' (lookup sc ''title''))))"


subsection \<open>jscGantt\<close>



subsection \<open>jscOrgChart\<close>


subsection \<open>jscCalendar\<close>


subsection \<open>jscMap\<close>





section \<open>jscPerformance.debounce\<close>

text \<open>
  \<open>debounce(func, wait, immediate)\<close> returns a function that shares the variable
  \<open>timeout\<close> with the \<open>later\<close> callbacks it hands to \<open>$timeout\<close>. The world of one
  debounced function: the clock in milliseconds, the promises of \<open>$timeout\<close> that are
  still pending (identifier, due time and the arguments that \<open>later\<close> captured), the
  variable \<open>timeout\<close>, and the arguments of every invocation of \<open>func\<close> so far.
\<close>

record 'a debounce_world =
  clock :: nat
  queue :: "(nat \<times> nat \<times> 'a) list"
  next_promise :: nat
  timeout :: "nat option"
  invocations :: "'a list"

definition fresh_world :: "'a debounce_world" where
  "fresh_world = \<lparr>clock = 0, queue = [], next_promise = 0, timeout = None, invocations = []\<rparr>"

definition later :: "bool \<Rightarrow> 'a \<Rightarrow> 'a debounce_world \<Rightarrow> 'a debounce_world" where
  "later immediate args w =
     (let w1 = w\<lparr>timeout := None\<rparr>
      in if \<not> immediate then w1\<lparr>invocations := invocations w1 @ [args]\<rparr> else w1)"

definition timeout_cancel :: "nat \<Rightarrow> 'a debounce_world \<Rightarrow> 'a debounce_world" where
  "timeout_cancel p w = w\<lparr>queue := filter (\<lambda>t. fst t \<noteq> p) (queue w)\<rparr>"

definition timeout_start :: "nat \<Rightarrow> 'a \<Rightarrow> 'a debounce_world \<Rightarrow> 'a debounce_world" where
  "timeout_start delay args w =
     w\<lparr>queue := queue w @ [(next_promise w, clock w + delay, args)],
       next_promise := Suc (next_promise w)\<rparr>"

definition debounced :: "nat \<Rightarrow> bool \<Rightarrow> 'a \<Rightarrow> 'a debounce_world \<Rightarrow> 'a debounce_world" where
  "debounced wait immediate args w =
     (let callNow = (immediate \<and> timeout w = None);
          w1 = (case timeout w of Some p \<Rightarrow> timeout_cancel p w | None \<Rightarrow> w);
          w2 = (timeout_start wait args w1)\<lparr>timeout := Some (next_promise w1)\<rparr>
      in if callNow then w2\<lparr>invocations := invocations w2 @ [args]\<rparr> else w2)"

text \<open>
  Time passes up to \<open>t\<close>: the promises due by then fire in the order of their due times.
  \<open>later\<close> starts no timer, so the due promises are those pending at the start.
\<close>

definition elapse :: "bool \<Rightarrow> nat \<Rightarrow> 'a debounce_world \<Rightarrow> 'a debounce_world" where
  "elapse immediate t w =
     foldl (\<lambda>w' p. later immediate (snd (snd p)) w')
       (w\<lparr>queue := filter (\<lambda>p. t < fst (snd p)) (queue w), clock := max (clock w) t\<rparr>)
       (sort_key (\<lambda>p. fst (snd p)) (filter (\<lambda>p. fst (snd p) \<le> t) (queue w)))"

text \<open>
  A run: each request is a time and the arguments of one call of the debounced function.
  A burst is a run whose successive requests are less than \<open>wait\<close> apart.
\<close>

fun run :: "nat \<Rightarrow> bool \<Rightarrow> (nat \<times> 'a) list \<Rightarrow> 'a debounce_world \<Rightarrow> 'a debounce_world" where
  "run wait immediate [] w = w"
| "run wait immediate ((t, args) # cs) w =
     run wait immediate cs (debounced wait immediate args (elapse immediate t w))"

fun burst :: "nat \<Rightarrow> (nat \<times> 'a) list \<Rightarrow> bool" where
  "burst wait [] = True"
| "burst wait [c] = True"
| "burst wait (c # d # cs) = (fst c \<le> fst d \<and> fst d < fst c + wait \<and> burst wait (d # cs))"

text \<open>
  At most one promise is pending for a debounced function, and \<open>timeout\<close> names it.
\<close>

definition one_pending :: "'a debounce_world \<Rightarrow> bool" where
  "one_pending w =
     (case timeout w of
        None \<Rightarrow> queue w = []
      | Some p \<Rightarrow> (\<exists>due args. queue w = [(p, due, args)]))"

section \<open>The chart directive\<close>

subsection \<open>buildConfig and wireEvents of jscChart\<close>

definition chart_events :: "(string \<times> string) list" where
  "chart_events =
     [(''onRedraw'', ''redraw''), (''onClick'', ''click''), (''onSelection'', ''selection''),
      (''onSelecting'', ''selecting''), (''onZoomed'', ''zoomed''), (''onScrolled'', ''scrolled''),
      (''onMouseOver'', ''mouseOver''), (''onMouseOut'', ''mouseOut''),
      (''onPointSelectionChanged'', ''pointSelectionChanged''),
      (''onSeriesSelectionChanged'', ''seriesSelectionChanged''),
      (''onBeforeExport'', ''beforeExport''), (''onAfterExport'', ''afterExport'')]"

definition point_events :: "(string \<times> string) list" where
  "point_events =
     [(''onPointClick'', ''click''), (''onPointMouseOver'', ''mouseOver''),
      (''onPointMouseOut'', ''mouseOut''), (''onPointSelect'', ''select''),
      (''onPointUnselect'', ''unselect'')]"

definition series_events :: "(string \<times> string) list" where
  "series_events =
     [(''onSeriesClick'', ''click''), (''onSeriesMouseOver'', ''mouseOver''),
      (''onSeriesMouseOut'', ''mouseOut''), (''onSeriesShow'', ''show''),
      (''onSeriesHide'', ''hide'')]"

definition legend_events :: "(string \<times> string) list" where
  "legend_events =
     [(''onLegendClick'', ''click''), (''onLegendMouseOver'', ''mouseOver''),
      (''onLegendMouseOut'', ''mouseOut'')]"

definition axis_tick_events :: "(string \<times> string) list" where
  "axis_tick_events =
     [(''onAxisTickClick'', ''click''), (''onAxisTickMouseOver'', ''mouseOver''),
      (''onAxisTickMouseOut'', ''mouseOut'')]"

definition wire_all :: "scope \<Rightarrow> (string \<times> string) list \<Rightarrow> stmt" where
  "wire_all sc table = seq (map (\<lambda>(name, event). wire sc name event) table)"

definition any_bound :: "scope \<Rightarrow> (string \<times> string) list \<Rightarrow> bool" where
  "any_bound sc table = (\<exists>name \<in> set (map fst table). truthy (lookup sc name))"

definition wireEvents :: "scope \<Rightarrow> stmt" where
  "wireEvents sc =
     seq
       [within ''events'' (wire_all sc chart_events),
        cond (any_bound sc point_events)
          (within ''defaultPoint'' (within ''events'' (wire_all sc point_events))),
        cond (any_bound sc series_events)
          (within ''defaultSeries'' (within ''events'' (wire_all sc series_events))),
        cond (any_bound sc legend_events)
          (within ''legend'' (within ''defaultEntry'' (within ''events''
             (wire_all sc legend_events)))),
        cond (any_bound sc axis_tick_events)
          (within ''xAxis'' (within ''defaultTick'' (within ''events''
             (wire_all sc axis_tick_events))))]"

definition buildConfig :: "scope \<Rightarrow> exn + jsval" where
  "buildConfig sc =
     seq
       [cond (truthy (lookup sc ''type'')) (assign ''type'' (lookup sc ''type'')),
        cond (truthy (lookup sc ''series''))
          (assign ''series'' (angular_copy (lookup sc ''series''))),
        cond (lookup sc ''palette'' \<noteq> JUndefined) (assign ''palette'' (lookup sc ''palette'')),
        cond (lookup sc ''debug'' \<noteq> JUndefined) (assign ''debug'' (lookup sc ''debug'')),
        cond (lookup sc ''animation'' \<noteq> JUndefined)
          (assign ''animation'' (lookup sc ''animation'')),
        apply_title sc,
        cond (truthy (lookup sc ''legendPosition''))
          (within ''legend'' (assign ''position'' (lookup sc ''legendPosition''))),
        cond (truthy (lookup sc ''axisToZoom''))
          (assign ''axisToZoom'' (lookup sc ''axisToZoom'')),
        cond (truthy (lookup sc ''width'')) (assign ''width'' (lookup sc ''width'')),
        cond (truthy (lookup sc ''height'')) (assign ''height'' (lookup sc ''height'')),
        cond (lookup sc ''muted'' \<noteq> JUndefined) (assign ''muted'' (lookup sc ''muted'')),
        wireEvents sc]
       (or_empty (angular_copy (lookup sc ''options'')))"

subsection \<open>The state of one mounted chart\<close>

text \<open>
  What the outside can observe, in order: the calls of the engine (\<open>JSC.chart\<close> with the
  merged options, \<open>chart.options\<close>, \<open>chart.destroy\<close>), the console messages, the calls
  of the scope's callbacks with the chart they are given, the calls of a callback wrapped
  by \<open>jscEventService.wrapCallback\<close>, and the exceptions that no handler of the sources
  catches. The callbacks of the scope are taken to return without an exception.
\<close>

datatype effect =
    JSC_chart jsval
  | Chart_options nat jsval
  | Chart_destroy nat
  | Console_error string
  | Console_warn string
  | Scope_call string jsval "nat option"
  | Service_call string jsval "nat option" string nat
  | Uncaught exn

text \<open>
  The callbacks waiting in \<open>$timeout\<close>: the one \<open>createSync\<close> schedules when the engine
  reports a chart ready, the one \<open>initChart\<close> schedules from its own ready callback, the
  rebuild of \<open>scheduleUpdate\<close>, the series update of the series watcher with the value
  it captured, and the deferred calls of the event wrappers.
\<close>

datatype task =
    FactoryReady nat
  | DirectiveReady nat
  | Rebuild
  | SeriesUpdate jsval
  | Deliver string jsval
  | ServiceDeliver string "nat option" string jsval

text \<open>
  The surroundings that the directive does not control: whether \<open>JSC.chart\<close> is loaded,
  where the engine throws, the global defaults and the tracking switch of the
  providers, whether \<open>element[0]\<close> exists, and the value of \<open>Date.now()\<close>.
\<close>

record env =
  available :: bool
  create_throws :: "jsval \<Rightarrow> bool"
  options_throws :: "nat \<Rightarrow> jsval \<Rightarrow> bool"
  destroy_throws :: "nat \<Rightarrow> bool"
  defaults :: jsval
  trackInstances :: bool
  element_present :: bool
  date_now :: nat

text \<open>
  The variables of the link function, the scope, the factory's registry and the pending
  work. \<open>loading\<close> holds the configurations captured by the \<open>then\<close> callbacks of module
  loads that have not settled; \<open>awaiting\<close> the charts whose ready callback the engine
  has yet to call; \<open>angular_id\<close> the \<open>__jscAngularId\<close> property of the charts.
\<close>

record dstate =
  chart :: "nat option"
  debounceTimeout :: "nat option"
  isInitialized :: bool
  pendingUpdate :: "jsval option"
  initializationInProgress :: bool
  lastOptionsHash :: jsval
  lastSeriesHash :: jsval
  bindings :: scope
  chartInstance :: "nat option"
  destroyed :: bool
  tasks :: "(nat \<times> task) list"
  next_task :: nat
  loading :: "jsval list"
  charts_made :: nat
  awaiting :: "nat list"
  instances :: "(string \<times> nat) list"
  instanceCounter :: nat
  angular_id :: "(nat \<times> string) list"
  trace :: "effect list"

definition initial :: "scope \<Rightarrow> dstate" where
  "initial sc =
     \<lparr>chart = None, debounceTimeout = None, isInitialized = False, pendingUpdate = None,
      initializationInProgress = False, lastOptionsHash = JNull, lastSeriesHash = JNull,
      bindings = sc, chartInstance = None, destroyed = False, tasks = [], next_task = 0,
      loading = [], charts_made = 0, awaiting = [], instances = [], instanceCounter = 0,
      angular_id = [], trace = []\<rparr>"

definition emit :: "effect list \<Rightarrow> dstate \<Rightarrow> dstate" where
  "emit es s = s\<lparr>trace := trace s @ es\<rparr>"

definition timeout_add :: "task \<Rightarrow> dstate \<Rightarrow> dstate" where
  "timeout_add t s = s\<lparr>tasks := tasks s @ [(next_task s, t)], next_task := Suc (next_task s)\<rparr>"

definition cancel :: "nat \<Rightarrow> dstate \<Rightarrow> dstate" where
  "cancel p s = s\<lparr>tasks := filter (\<lambda>t. fst t \<noteq> p) (tasks s)\<rparr>"

definition cancel_debounce :: "dstate \<Rightarrow> dstate" where
  "cancel_debounce s = (case debounceTimeout s of Some p \<Rightarrow> cancel p s | None \<Rightarrow> s)"

subsection \<open>jscChartFactory\<close>

definition generateId :: "nat \<Rightarrow> nat \<Rightarrow> string" where
  "generateId counter now = ''jsc_'' @ digits counter @ ''_'' @ digits now"

text \<open>
  \<open>createSync\<close> returns the chart, or \<open>null\<close> after a message on the console when the
  library is missing or when merging the defaults or \<open>JSC.chart\<close> throws.
\<close>

definition createSync :: "env \<Rightarrow> jsval \<Rightarrow> dstate \<Rightarrow> nat option \<times> dstate" where
  "createSync e options s =
     (if \<not> available e then (None, emit [Console_error ''JSCharting library is not loaded.''] s)
      else
        (case mergeWithDefaults (defaults e) options of
           Inl x \<Rightarrow> (None, emit [Console_error ''Error creating chart:''] s)
         | Inr mergedOptions \<Rightarrow>
             if create_throws e mergedOptions
             then (None, emit [JSC_chart mergedOptions, Console_error ''Error creating chart:''] s)
             else (Some (charts_made s),
                   (emit [JSC_chart mergedOptions] s)
                     \<lparr>charts_made := Suc (charts_made s),
                      awaiting := awaiting s @ [charts_made s]\<rparr>)))"

text \<open>
  \<open>destroy(idOrChart)\<close>. An identifier is looked up in the registry; a chart (an object
  with a \<open>destroy\<close> method) is taken as it is, with its \<open>__jscAngularId\<close>. The engine's
  \<open>destroy\<close> runs inside a \<open>try\<close>, the chart leaves the registry when its identifier
  is found there, and the result tells whether there was a chart.
\<close>

datatype id_or_chart = Id string | Chart nat | Neither

definition factory_destroy :: "env \<Rightarrow> id_or_chart \<Rightarrow> dstate \<Rightarrow> bool \<times> dstate" where
  "factory_destroy e idOrChart s =
     (let (found, i) =
            (case idOrChart of
               Id x \<Rightarrow> (map_of (instances s) x, Some x)
             | Chart c \<Rightarrow> (Some c, map_of (angular_id s) c)
             | Neither \<Rightarrow> (None, None))
      in case found of
           None \<Rightarrow> (False, s)
         | Some c \<Rightarrow>
             (let s1 = emit (Chart_destroy c #
                        (if destroy_throws e c then [Console_warn ''Error destroying chart:'']
                         else [])) s
              in (True,
                  case i of
                    None \<Rightarrow> s1
                  | Some x \<Rightarrow>
                      if x \<noteq> [] \<and> map_of (instances s1) x \<noteq> None
                      then s1\<lparr>instances := filter (\<lambda>en. fst en \<noteq> x) (instances s1)\<rparr>
                      else s1)))"

subsection \<open>The link function\<close>

text \<open>
  \<open>chart.options(config)\<close> inside the \<open>try\<close> of \<open>updateChart\<close>, and the bare call of the
  watchers, whose exception nothing catches.
\<close>

definition options_caught :: "env \<Rightarrow> nat \<Rightarrow> jsval \<Rightarrow> dstate \<Rightarrow> dstate" where
  "options_caught e c config s =
     emit (Chart_options c config #
           (if options_throws e c config then [Console_warn ''Error updating chart:''] else [])) s"

definition options_bare :: "env \<Rightarrow> nat \<Rightarrow> jsval \<Rightarrow> dstate \<Rightarrow> dstate" where
  "options_bare e c config s =
     emit (Chart_options c config #
           (if options_throws e c config then [Uncaught EngineError] else [])) s"

definition updateChart :: "env \<Rightarrow> jsval \<Rightarrow> dstate \<Rightarrow> dstate" where
  "updateChart e newConfig s =
     (case chart s of
        None \<Rightarrow> s\<lparr>pendingUpdate := Some newConfig\<rparr>
      | Some c \<Rightarrow> options_caught e c newConfig s)"

text \<open>
  \<open>initChart\<close>. \<open>loadForType\<close> lower-cases a type that is not falsy, which throws for
  anything but a string; otherwise the load is pending until the surroundings settle it.
\<close>

definition is_string :: "jsval \<Rightarrow> bool" where
  "is_string v = (case v of JStr x \<Rightarrow> True | _ \<Rightarrow> False)"

definition initChart :: "dstate \<Rightarrow> dstate" where
  "initChart s =
     (if initializationInProgress s then s
      else
        (let s1 = s\<lparr>initializationInProgress := True\<rparr>
         in case buildConfig (bindings s1) of
              Inl x \<Rightarrow> emit [Uncaught x] s1
            | Inr config \<Rightarrow>
                (let s2 = s1\<lparr>lastOptionsHash := computeHash (lookup (bindings s1) ''options''),
                              lastSeriesHash := computeHash (lookup (bindings s1) ''series'')\<rparr>
                 in case prop_get config ''type'' of
                      Inl x \<Rightarrow> emit [Uncaught x] s2
                    | Inr ty \<Rightarrow>
                        if truthy ty \<and> \<not> is_string ty then emit [Uncaught TypeError] s2
                        else s2\<lparr>loading := loading s2 @ [config]\<rparr>)))"

definition load_resolved :: "env \<Rightarrow> dstate \<Rightarrow> dstate" where
  "load_resolved e s =
     (case loading s of
        [] \<Rightarrow> s
      | config # rest \<Rightarrow>
          (let s1 = s\<lparr>loading := rest\<rparr>
           in if \<not> element_present e then s1\<lparr>initializationInProgress := False\<rparr>
              else (let (c, s2) = createSync e config s1 in s2\<lparr>chart := c\<rparr>)))"

definition load_rejected :: "dstate \<Rightarrow> dstate" where
  "load_rejected s =
     (case loading s of
        [] \<Rightarrow> s
      | config # rest \<Rightarrow>
          (emit [Console_error ''Failed to load chart modules:''] (s\<lparr>loading := rest\<rparr>))
            \<lparr>initializationInProgress := False\<rparr>)"

text \<open>
  The engine reports chart \<open>c\<close> ready: \<open>createSync\<close>'s callback defers the tracking of
  the instance and the call of the directive's callback, which defers its own body.
\<close>

definition engine_ready :: "nat \<Rightarrow> dstate \<Rightarrow> dstate" where
  "engine_ready c s =
     (if c \<in> set (awaiting s)
      then timeout_add (FactoryReady c) (s\<lparr>awaiting := removeAll c (awaiting s)\<rparr>)
      else s)"

definition factory_ready :: "env \<Rightarrow> nat \<Rightarrow> dstate \<Rightarrow> dstate" where
  "factory_ready e c s =
     (let s1 = (if trackInstances e
                then (let n = Suc (instanceCounter s); i = generateId n (date_now e)
                      in s\<lparr>instanceCounter := n, instances := upd i c (instances s),
                           angular_id := upd c i (angular_id s)\<rparr>)
                else s)
      in timeout_add (DirectiveReady c) s1)"

definition directive_ready :: "env \<Rightarrow> nat \<Rightarrow> dstate \<Rightarrow> dstate" where
  "directive_ready e chartInstance' s =
     (if chart s = Some chartInstance' then
        (let s1 = s\<lparr>chartInstance := Some chartInstance', isInitialized := True,
                     initializationInProgress := False\<rparr>;
             s2 = (if truthy (lookup (bindings s1) ''onLoad'')
                   then emit [Scope_call ''onLoad'' JUndefined (Some chartInstance')] s1 else s1)
         in case pendingUpdate s2 of
              None \<Rightarrow> s2
            | Some config \<Rightarrow>
                if truthy config then (updateChart e config s2)\<lparr>pendingUpdate := None\<rparr> else s2)
      else s)"

definition scheduleUpdate :: "dstate \<Rightarrow> dstate" where
  "scheduleUpdate s =
     (let s1 = cancel_debounce s
      in (timeout_add Rebuild s1)\<lparr>debounceTimeout := Some (next_task s1)\<rparr>)"

definition rebuild :: "env \<Rightarrow> dstate \<Rightarrow> dstate" where
  "rebuild e s =
     (case buildConfig (bindings s) of
        Inl x \<Rightarrow> emit [Uncaught x] s
      | Inr config \<Rightarrow> updateChart e config s)"

text \<open>
  The watchers' listeners. \<open>newVal.slice()\<close> exists for arrays and strings.
\<close>

definition options_listener :: "jsval \<Rightarrow> dstate \<Rightarrow> dstate" where
  "options_listener newVal s =
     (if \<not> isInitialized s then s
      else (let newHash = computeHash newVal
            in if newHash \<noteq> lastOptionsHash s
               then scheduleUpdate (s\<lparr>lastOptionsHash := newHash\<rparr>)
               else s))"

definition series_listener :: "jsval \<Rightarrow> dstate \<Rightarrow> dstate" where
  "series_listener newVal s =
     (if \<not> isInitialized s \<or> chart s = None then s
      else (let newHash = computeHash newVal
            in if newHash \<noteq> lastSeriesHash s
               then (let s1 = cancel_debounce (s\<lparr>lastSeriesHash := newHash\<rparr>)
                     in (timeout_add (SeriesUpdate newVal) s1)
                          \<lparr>debounceTimeout := Some (next_task s1)\<rparr>)
               else s))"

fun slice :: "jsval \<Rightarrow> exn + jsval" where
  "slice (JArr xs) = Inr (JArr xs)"
| "slice (JStr x) = Inr (JStr x)"
| "slice JCyc = Inl OutsideModel"
| "slice v = Inl TypeError"

definition series_update :: "env \<Rightarrow> jsval \<Rightarrow> dstate \<Rightarrow> dstate" where
  "series_update e newVal s =
     (case chart s of
        None \<Rightarrow> emit [Uncaught TypeError] s
      | Some c \<Rightarrow>
          (case (if truthy newVal then slice newVal else Inr (JArr [])) of
             Inl x \<Rightarrow> emit [Uncaught x] s
           | Inr v \<Rightarrow> options_bare e c (JObj [(''series'', v)]) s))"

definition type_listener :: "env \<Rightarrow> jsval \<Rightarrow> jsval \<Rightarrow> dstate \<Rightarrow> dstate" where
  "type_listener e newVal oldVal s =
     (if newVal \<noteq> oldVal \<and> isInitialized s \<and> \<not> initializationInProgress s then
        initChart
          (case chart s of
             None \<Rightarrow> s
           | Some c \<Rightarrow> (snd (factory_destroy e (Chart c) s))
                         \<lparr>chart := None, chartInstance := None, isInitialized := False\<rparr>)
      else s)"

text \<open>
  \<open>newVal !== oldVal\<close>: two objects differ unless they are one object, which the
  notification says; anything else is compared by value.
\<close>

definition is_reference :: "jsval \<Rightarrow> bool" where
  "is_reference v = (isObject v \<or> typeof v = ''function'')"

definition strict_neq :: "bool \<Rightarrow> jsval \<Rightarrow> jsval \<Rightarrow> bool" where
  "strict_neq same newVal oldVal =
     (if is_reference newVal \<and> is_reference oldVal then \<not> same else newVal \<noteq> oldVal)"

definition field_listener :: "env \<Rightarrow> string \<Rightarrow> bool \<Rightarrow> jsval \<Rightarrow> jsval \<Rightarrow> dstate \<Rightarrow> dstate" where
  "field_listener e field same newVal oldVal s =
     (case chart s of
        None \<Rightarrow> s
      | Some c \<Rightarrow>
          if strict_neq same newVal oldVal then options_bare e c (JObj [(field, newVal)]) s
          else s)"

definition destroy_handler :: "env \<Rightarrow> dstate \<Rightarrow> dstate" where
  "destroy_handler e s =
     (let s1 = cancel_debounce s;
          s2 = (case chart s1 of
                  None \<Rightarrow> s1
                | Some c \<Rightarrow> (snd (factory_destroy e (Chart c) s1))\<lparr>chart := None\<rparr>)
      in s2\<lparr>chartInstance := None, isInitialized := False\<rparr>)"

text \<open>
  A handler that \<open>wireEvents\<close> stored, called by the engine with its arguments (the event
  and, for a point or a series, the receiver): it defers the call of the scope's
  callback, which reads the variable \<open>chart\<close> when it runs.
\<close>

definition wired :: "(string \<times> string) list" where
  "wired = chart_events @ point_events @ series_events @ legend_events @ axis_tick_events"

definition handler_called :: "string \<Rightarrow> jsval \<Rightarrow> dstate \<Rightarrow> dstate" where
  "handler_called name args s =
     (if name \<in> set (map fst wired) \<and> truthy (lookup (bindings s) name) \<and> 0 < charts_made s
      then timeout_add (Deliver name args) s
      else s)"

text \<open>
  The function that \<open>jscEventService.wrapCallback(callback, chart, eventType)\<close> returns,
  called with an event.
\<close>

definition wrapCallback :: "string \<Rightarrow> nat option \<Rightarrow> string \<Rightarrow> jsval \<Rightarrow> dstate \<Rightarrow> dstate" where
  "wrapCallback callback c eventType jscEvent s =
     timeout_add (ServiceDeliver callback c eventType jscEvent) s"

definition run_task :: "env \<Rightarrow> task \<Rightarrow> dstate \<Rightarrow> dstate" where
  "run_task e t s =
     (case t of
        FactoryReady c \<Rightarrow> factory_ready e c s
      | DirectiveReady c \<Rightarrow> directive_ready e c s
      | Rebuild \<Rightarrow> rebuild e s
      | SeriesUpdate v \<Rightarrow> series_update e v s
      | Deliver name args \<Rightarrow> emit [Scope_call name args (chart s)] s
      | ServiceDeliver callback c eventType jscEvent \<Rightarrow>
          emit [Service_call callback jscEvent c eventType (date_now e)] s)"

definition timeout_fire :: "env \<Rightarrow> nat \<Rightarrow> dstate \<Rightarrow> dstate" where
  "timeout_fire e p s =
     (case map_of (tasks s) p of
        None \<Rightarrow> s
      | Some t \<Rightarrow> run_task e t (cancel p s))"

subsection \<open>What can happen to a mounted chart\<close>

text \<open>
  The module load settles, the engine reports a chart ready or calls a handler, a timer
  fires, a binding changes and its watcher is notified, or the scope is destroyed. A
  destroyed scope notifies no watcher. The link function itself runs once, first.
\<close>

datatype event =
    LoadResolved
  | LoadRejected
  | EngineReady nat
  | Timeout nat
  | OptionsChanged jsval
  | SeriesChanged jsval
  | TypeChanged jsval
  | PaletteChanged jsval bool
  | MutedChanged jsval bool
  | HandlerCalled string jsval
  | Destroy

definition set_binding :: "string \<Rightarrow> jsval \<Rightarrow> dstate \<Rightarrow> dstate" where
  "set_binding k v s = s\<lparr>bindings := upd k v (bindings s)\<rparr>"

definition link :: "scope \<Rightarrow> dstate" where
  "link sc = initChart (initial sc)"

fun step :: "env \<Rightarrow> dstate \<Rightarrow> event \<Rightarrow> dstate" where
  "step e s LoadResolved = load_resolved e s"
| "step e s LoadRejected = load_rejected s"
| "step e s (EngineReady c) = engine_ready c s"
| "step e s (Timeout p) = timeout_fire e p s"
| "step e s (OptionsChanged v) =
     (if destroyed s then s else options_listener v (set_binding ''options'' v s))"
| "step e s (SeriesChanged v) =
     (if destroyed s then s else series_listener v (set_binding ''series'' v s))"
| "step e s (TypeChanged v) =
     (if destroyed s then s
      else type_listener e v (lookup (bindings s) ''type'') (set_binding ''type'' v s))"
| "step e s (PaletteChanged v same) =
     (if destroyed s then s
      else field_listener e ''palette'' same v (lookup (bindings s) ''palette'')
             (set_binding ''palette'' v s))"
| "step e s (MutedChanged v same) =
     (if destroyed s then s
      else field_listener e ''muted'' same v (lookup (bindings s) ''muted'')
             (set_binding ''muted'' v s))"
| "step e s (HandlerCalled name args) = handler_called name args s"
| "step e s Destroy = (destroy_handler e s)\<lparr>destroyed := True\<rparr>"

definition run_events :: "env \<Rightarrow> dstate \<Rightarrow> event list \<Rightarrow> dstate" where
  "run_events e s evs = foldl (step e) s evs"

definition quiet :: env where
  "quiet = \<lparr>available = True, create_throws = (\<lambda>config. False),
            options_throws = (\<lambda>c config. False), destroy_throws = (\<lambda>c. False),
            defaults = initial_defaults, trackInstances = True, element_present = True,
            date_now = 0\<rparr>"

subsection \<open>Phases and invariants\<close>

text \<open>
  The phase of the lifecycle, read off the variables of the link function: a chart that
  is initialised is ready, one that is not is being created, and without a chart the
  directive is loading while \<open>initializationInProgress\<close> is set.
\<close>

datatype phase = Unmounted | Loading | Creating | Ready

definition phase_of :: "dstate \<Rightarrow> phase" where
  "phase_of s =
     (if chart s \<noteq> None then (if isInitialized s then Ready else Creating)
      else if initializationInProgress s then Loading
      else Unmounted)"

definition keeps_truthy :: "stmt \<Rightarrow> bool" where
  "keeps_truthy st = (\<forall>config c. truthy config \<longrightarrow> st config = Inr c \<longrightarrow> truthy c)"

text \<open>
  What holds of every state the directive can reach: an initialised directive has a
  chart; an update is pending only while the directive is not initialised, and it is a
  configuration object; at most one module load is pending, and during it the directive
  has no chart and initialisation is in progress; the identifiers of the pending timers
  have been handed out.
\<close>

definition invariant :: "dstate \<Rightarrow> bool" where
  "invariant s =
     ((isInitialized s \<longrightarrow> chart s \<noteq> None)
      \<and> (pendingUpdate s \<noteq> None \<longrightarrow> \<not> isInitialized s)
      \<and> (\<forall>config. pendingUpdate s = Some config \<longrightarrow> truthy config)
      \<and> (loading s \<noteq> [] \<longrightarrow> chart s = None \<and> initializationInProgress s)
      \<and> length (loading s) \<le> 1
      \<and> (\<forall>t \<in> set (tasks s). fst t < next_task s))"

section \<open>Properties\<close>

subsection \<open>Fingerprints\<close>
















subsection \<open>The configuration merge\<close>











subsection \<open>The chart type of the specialised directives\<close>











subsection \<open>Debouncing\<close>

lemma run_burst:
  "queue w = [(p, t + wait, a)] \<Longrightarrow> timeout w = Some p \<Longrightarrow> clock w = t \<Longrightarrow>
   burst wait ((t, a) # cs) \<Longrightarrow> fst (last ((t, a) # cs)) + wait \<le> T \<Longrightarrow>
   invocations (elapse immediate T (run wait immediate cs w))
     = invocations w @ (if immediate then [] else [snd (last ((t, a) # cs))])
   \<and> queue (elapse immediate T (run wait immediate cs w)) = []"
proof (induction cs arbitrary: w p t a)
  case Nil
  then show ?case by (simp add: elapse_def later_def)
next
  case (Cons c cs)
  obtain t' a' where c: "c = (t', a')" by (cases c)
  from Cons.prems(4) c have le: "t \<le> t'" and lt: "t' < t + wait" and b: "burst wait ((t', a') # cs)"
    by simp_all
  let ?w = "debounced wait immediate a' (elapse immediate t' w)"
  have q: "queue ?w = [(next_promise w, t' + wait, a')]"
    using Cons.prems(1,2,3) le lt
    by (simp add: elapse_def debounced_def timeout_cancel_def timeout_start_def Let_def max_def)
  have tm: "timeout ?w = Some (next_promise w)"
    using Cons.prems(1,2,3) le lt
    by (simp add: elapse_def debounced_def timeout_cancel_def timeout_start_def Let_def)
  have ck: "clock ?w = t'"
    using Cons.prems(1,2,3) le lt
    by (simp add: elapse_def debounced_def timeout_cancel_def timeout_start_def Let_def max_def)
  have iv: "invocations ?w = invocations w"
    using Cons.prems(1,2,3) le lt
    by (simp add: elapse_def debounced_def timeout_cancel_def timeout_start_def Let_def)
  from Cons.prems(5) c have T: "fst (last ((t', a') # cs)) + wait \<le> T" by simp
  from Cons.IH[OF q tm ck b T] iv c show ?case by simp
qed

lemma one_pending_elapse: "one_pending w \<Longrightarrow> one_pending (elapse immediate t w)"
  by (cases "timeout w") (auto simp: one_pending_def elapse_def later_def Let_def)

lemma one_pending_debounced:
  "one_pending w \<Longrightarrow> one_pending (debounced wait immediate a w) \<and> length (queue (debounced wait immediate a w)) = 1"
  by (cases "timeout w")
     (auto simp: one_pending_def debounced_def timeout_cancel_def timeout_start_def Let_def)

lemma one_pending_run:
  "one_pending w \<Longrightarrow> one_pending (run wait immediate cs w)
     \<and> (cs \<noteq> [] \<longrightarrow> length (queue (run wait immediate cs w)) = 1)"
proof (induction cs arbitrary: w)
  case Nil
  then show ?case by simp
next
  case (Cons c cs)
  obtain t a where c: "c = (t, a)" by (cases c)
  let ?w = "debounced wait immediate a (elapse immediate t w)"
  from Cons.prems have e: "one_pending (elapse immediate t w)" by (rule one_pending_elapse)
  have w: "one_pending ?w" "length (queue ?w) = 1"
    using one_pending_debounced[OF e, of wait immediate a] by simp_all
  from Cons.IH[OF w(1)] w(2) c show ?case by (cases cs) auto
qed

text \<open>
  C6, as amended. For every burst of requests to one debounced function, each less than
  \<open>wait\<close> after the one before, \<open>func\<close> is invoked exactly once by the time \<open>wait\<close> has
  passed after the last request. In the trailing mode (\<open>immediate\<close> not set, which is
  also the shape of the chart directive's \<open>scheduleUpdate\<close>) the invocation carries the
  arguments of the last request; with \<open>immediate\<close> set it is the leading one and carries
  the arguments of the first request. After every request exactly one timer is pending:
  the one started before it has been cancelled.
\<close>

theorem debounce_burst:
  assumes "cs \<noteq> []" and "burst wait cs" and "fst (last cs) + wait \<le> T"
  shows "invocations (elapse immediate T (run wait immediate cs fresh_world))
           = [snd (if immediate then hd cs else last cs)]
     \<and> queue (elapse immediate T (run wait immediate cs fresh_world)) = []
     \<and> (\<forall>n. 0 < n \<and> n \<le> length cs \<longrightarrow>
          length (queue (run wait immediate (take n cs) fresh_world)) = 1)"
proof -
  from assms(1) obtain t a rest where cs: "cs = (t, a) # rest" by (cases cs) auto
  let ?w = "debounced wait immediate a (elapse immediate t fresh_world)"
  have q: "queue ?w = [(0, t + wait, a)]" and tm: "timeout ?w = Some 0" and ck: "clock ?w = t"
    and iv: "invocations ?w = (if immediate then [a] else [])"
    by (simp_all add: fresh_world_def elapse_def debounced_def timeout_start_def Let_def)
  from assms(2,3) cs have b: "burst wait ((t, a) # rest)" and T: "fst (last ((t, a) # rest)) + wait \<le> T"
    by simp_all
  from run_burst[OF q tm ck b T, of immediate] iv cs
  have 1: "invocations (elapse immediate T (run wait immediate cs fresh_world))
           = [snd (if immediate then hd cs else last cs)]"
    and 2: "queue (elapse immediate T (run wait immediate cs fresh_world)) = []"
    by auto
  have 3: "\<forall>n. 0 < n \<and> n \<le> length cs \<longrightarrow>
          length (queue (run wait immediate (take n cs) fresh_world)) = 1"
  proof (intro allI impI)
    fix n assume n: "0 < n \<and> n \<le> length cs"
    have "one_pending (fresh_world :: 'a debounce_world)"
      by (simp add: one_pending_def fresh_world_def)
    from one_pending_run[OF this, of wait immediate "take n cs"] n assms(1)
    show "length (queue (run wait immediate (take n cs) fresh_world)) = 1" by auto
  qed
  from 1 2 3 show ?thesis by blast
qed

theorem debounce_burst_witness:
  "[(0::nat, ''a''), (50, ''b''), (120, ''c'')] \<noteq> []
   \<and> burst 100 [(0::nat, ''a''), (50, ''b''), (120, ''c'')]
   \<and> fst (last [(0::nat, ''a''), (50, ''b''), (120, ''c'')]) + 100 \<le> (220::nat)
   \<and> invocations (elapse False 220 (run 100 False [(0, ''a''), (50, ''b''), (120, ''c'')] fresh_world))
       = [''c'']
   \<and> length (queue (run 100 False (take 2 [(0, ''a''), (50, ''b''), (120, ''c'')]) fresh_world)) = 1"
proof -
  have b: "burst 100 [(0::nat, ''a''), (50, ''b''), (120, ''c'')]" by simp
  have T: "fst (last [(0::nat, ''a''), (50, ''b''), (120, ''c'')]) + 100 \<le> (220::nat)" by simp
  from debounce_burst[OF _ b T, of False]
  have r: "invocations (elapse False 220 (run 100 False [(0, ''a''), (50, ''b''), (120, ''c'')] fresh_world))
       = [''c'']"
    and q: "\<forall>n. 0 < n \<and> n \<le> length [(0::nat, ''a''), (50, ''b''), (120, ''c'')] \<longrightarrow>
          length (queue (run 100 False (take n [(0, ''a''), (50, ''b''), (120, ''c'')]) fresh_world)) = 1"
    by simp_all
  from q[rule_format, of 2]
  have "length (queue (run 100 False (take 2 [(0, ''a''), (50, ''b''), (120, ''c'')]) fresh_world)) = 1"
    by simp
  with r b T show ?thesis by simp
qed

text \<open>
  C6 as stated fails for a function debounced with \<open>immediate\<close> set: the one invocation
  of a two-request burst carries the arguments of the first request, not of the last.
\<close>

theorem debounce_immediate_counterexample:
  "burst 100 [(0::nat, ''first''), (50, ''last'')]
   \<and> invocations (elapse True 150 (run 100 True [(0, ''first''), (50, ''last'')] fresh_world)) = [''first'']
   \<and> ''first'' \<noteq> ''last''"
  by (simp add: fresh_world_def elapse_def debounced_def later_def timeout_cancel_def
      timeout_start_def Let_def)

subsection \<open>Invariants of the chart directive\<close>

lemma truthy_prop_set: "prop_set d k v = Inr c \<Longrightarrow> truthy c"
  by (cases d) auto

lemma kt_assign: "keeps_truthy (assign k v)"
  by (auto simp: keeps_truthy_def assign_def dest: truthy_prop_set)

lemma kt_cond: "keeps_truthy st \<Longrightarrow> keeps_truthy (cond c st)"
  by (auto simp: keeps_truthy_def cond_def)

lemma kt_within: "keeps_truthy (within k body)"
  by (auto simp: keeps_truthy_def within_def bindE_def split: sum.splits dest: truthy_prop_set)

lemma kt_seq: "(\<forall>st \<in> set sts. keeps_truthy st) \<Longrightarrow> keeps_truthy (seq sts)"
proof (induction sts)
  case Nil
  then show ?case by (simp add: keeps_truthy_def)
next
  case (Cons st sts)
  then have a: "keeps_truthy st" and b: "keeps_truthy (seq sts)" by simp_all
  show ?case unfolding keeps_truthy_def
  proof (intro allI impI)
    fix config c
    assume h: "truthy config" and r: "seq (st # sts) config = Inr c"
    from r obtain c1 where c1: "st config = Inr c1" and c2: "seq sts c1 = Inr c"
      by (auto simp: bindE_def split: sum.splits)
    from a h c1 have "truthy c1" unfolding keeps_truthy_def by blast
    with b c2 show "truthy c" unfolding keeps_truthy_def by blast
  qed
qed

lemma buildConfig_truthy: "buildConfig sc = Inr config \<Longrightarrow> truthy config"
proof -
  assume r: "buildConfig sc = Inr config"
  have "keeps_truthy (wireEvents sc)"
    by (simp add: wireEvents_def kt_seq kt_cond kt_within)
  then have "keeps_truthy (seq
       [cond (truthy (lookup sc ''type'')) (assign ''type'' (lookup sc ''type'')),
        cond (truthy (lookup sc ''series''))
          (assign ''series'' (angular_copy (lookup sc ''series''))),
        cond (lookup sc ''palette'' \<noteq> JUndefined) (assign ''palette'' (lookup sc ''palette'')),
        cond (lookup sc ''debug'' \<noteq> JUndefined) (assign ''debug'' (lookup sc ''debug'')),
        cond (lookup sc ''animation'' \<noteq> JUndefined)
          (assign ''animation'' (lookup sc ''animation'')),
        apply_title sc,
        cond (truthy (lookup sc ''legendPosition''))
          (within ''legend'' (assign ''position'' (lookup sc ''legendPosition''))),
        cond (truthy (lookup sc ''axisToZoom''))
          (assign ''axisToZoom'' (lookup sc ''axisToZoom'')),
        cond (truthy (lookup sc ''width'')) (assign ''width'' (lookup sc ''width'')),
        cond (truthy (lookup sc ''height'')) (assign ''height'' (lookup sc ''height'')),
        cond (lookup sc ''muted'' \<noteq> JUndefined) (assign ''muted'' (lookup sc ''muted'')),
        wireEvents sc])"
    by (intro kt_seq) (simp add: kt_cond kt_assign kt_within apply_title_def)
  moreover have "truthy (or_empty (angular_copy (lookup sc ''options'')))"
    by (simp add: or_empty_def)
  ultimately show ?thesis using r unfolding buildConfig_def keeps_truthy_def by blast
qed

lemma inv_initial: "invariant (initial sc)"
  by (simp add: invariant_def initial_def)

lemma inv_emit [simp]: "invariant (emit es s) = invariant s"
  by (simp add: invariant_def emit_def)

lemma inv_initChart: "invariant s \<Longrightarrow> chart s = None \<Longrightarrow> invariant (initChart s)"
  by (auto simp: invariant_def initChart_def emit_def Let_def split: sum.splits)

lemma inv_timeout_add: "invariant s \<Longrightarrow> invariant (timeout_add t s)"
  by (auto simp: invariant_def timeout_add_def less_Suc_eq)

lemma inv_cancel: "invariant s \<Longrightarrow> invariant (cancel p s)"
  by (auto simp: invariant_def cancel_def)

lemma inv_cancel_debounce: "invariant s \<Longrightarrow> invariant (cancel_debounce s)"
  by (auto simp: cancel_debounce_def inv_cancel split: option.splits)

lemma inv_load_rejected: "invariant s \<Longrightarrow> invariant (load_rejected s)"
  by (auto simp: invariant_def load_rejected_def emit_def split: list.splits)

lemma inv_load_resolved: "invariant s \<Longrightarrow> invariant (load_resolved e s)"
  by (auto simp: invariant_def load_resolved_def createSync_def emit_def Let_def
      split: list.splits sum.splits if_splits)

lemma inv_engine_ready: "invariant s \<Longrightarrow> invariant (engine_ready c s)"
  by (auto simp: invariant_def engine_ready_def timeout_add_def less_Suc_eq)

lemma inv_factory_ready: "invariant s \<Longrightarrow> invariant (factory_ready e c s)"
  by (auto simp: invariant_def factory_ready_def timeout_add_def Let_def less_Suc_eq)

lemma inv_updateChart: "invariant s \<Longrightarrow> truthy config \<Longrightarrow> invariant (updateChart e config s)"
  by (auto simp: invariant_def updateChart_def options_caught_def emit_def split: option.splits)

lemma inv_directive_ready: "invariant s \<Longrightarrow> invariant (directive_ready e c s)"
  by (auto simp: invariant_def directive_ready_def updateChart_def options_caught_def emit_def Let_def
      split: option.splits)

lemma inv_rebuild: "invariant s \<Longrightarrow> invariant (rebuild e s)"
  by (auto simp: rebuild_def inv_updateChart buildConfig_truthy split: sum.splits)

lemma inv_series_update: "invariant s \<Longrightarrow> invariant (series_update e v s)"
  by (auto simp: series_update_def options_bare_def split: option.splits sum.splits)

lemma inv_run_task: "invariant s \<Longrightarrow> invariant (run_task e t s)"
  by (cases t)
     (simp_all add: run_task_def inv_factory_ready inv_directive_ready inv_rebuild
        inv_series_update)

lemma inv_timeout_fire: "invariant s \<Longrightarrow> invariant (timeout_fire e p s)"
  by (auto simp: timeout_fire_def inv_run_task inv_cancel split: option.splits)

lemma inv_set_binding: "invariant s \<Longrightarrow> invariant (set_binding k v s)"
  by (simp add: invariant_def set_binding_def)

lemma inv_hash: "invariant s \<Longrightarrow> invariant (s\<lparr>lastOptionsHash := h\<rparr>)" "invariant s \<Longrightarrow> invariant (s\<lparr>lastSeriesHash := h\<rparr>)"
  by (simp_all add: invariant_def)

lemma inv_debounceTimeout: "invariant s \<Longrightarrow> invariant (s\<lparr>debounceTimeout := d\<rparr>)"
  by (simp add: invariant_def)

lemma inv_scheduleUpdate: "invariant s \<Longrightarrow> invariant (scheduleUpdate s)"
  by (simp add: scheduleUpdate_def Let_def inv_debounceTimeout inv_timeout_add inv_cancel_debounce)

lemma inv_options_listener: "invariant s \<Longrightarrow> invariant (options_listener v s)"
  by (simp add: options_listener_def Let_def inv_scheduleUpdate inv_hash)

lemma inv_series_listener: "invariant s \<Longrightarrow> invariant (series_listener v s)"
  by (simp add: series_listener_def Let_def inv_debounceTimeout inv_timeout_add
      inv_cancel_debounce inv_hash)

lemma inv_factory_destroy:
  "invariant s \<Longrightarrow> invariant ((snd (factory_destroy e (Chart c) s))\<lparr>chart := None, chartInstance := ci, isInitialized := False\<rparr>)"
  by (auto simp: invariant_def factory_destroy_def emit_def Let_def split: option.splits)

lemma inv_type_listener: "invariant s \<Longrightarrow> invariant (type_listener e v old s)"
  by (auto simp: type_listener_def split: option.splits
      intro!: inv_initChart inv_factory_destroy)

lemma inv_field_listener: "invariant s \<Longrightarrow> invariant (field_listener e f same v old s)"
  by (auto simp: field_listener_def options_bare_def split: option.splits)

lemma inv_destroy_handler: "invariant s \<Longrightarrow> invariant (destroy_handler e s)"
proof -
  assume "invariant s"
  then have a: "invariant (cancel_debounce s)" by (rule inv_cancel_debounce)
  then show ?thesis
    by (auto simp: destroy_handler_def Let_def invariant_def factory_destroy_def emit_def
        split: option.splits)
qed

lemma inv_handler_called: "invariant s \<Longrightarrow> invariant (handler_called name args s)"
  by (simp add: handler_called_def inv_timeout_add)

lemma inv_destroyed: "invariant s \<Longrightarrow> invariant (s\<lparr>destroyed := d\<rparr>)"
  by (simp add: invariant_def)

lemma inv_step: "invariant s \<Longrightarrow> invariant (step e s ev)"
  by (cases ev)
     (simp_all add: inv_load_resolved inv_load_rejected inv_engine_ready inv_timeout_fire
        inv_options_listener inv_series_listener inv_type_listener inv_field_listener
        inv_handler_called inv_destroy_handler inv_set_binding inv_destroyed)

lemma inv_run: "invariant s \<Longrightarrow> invariant (run_events e s evs)"
  unfolding run_events_def by (induction evs arbitrary: s) (simp_all add: inv_step)

lemma inv_reachable: "invariant (run_events e (link sc) evs)"
proof -
  have "chart (initial sc) = None" by (simp add: initial_def)
  with inv_initial have "invariant (link sc)" unfolding link_def by (rule inv_initChart)
  then show ?thesis by (rule inv_run)
qed

subsection \<open>Teardown\<close>

text \<open>
  C2. Teardown of a mount point is the \<open>$destroy\<close> handler of the link function.
  Running it twice in succession leaves exactly the state that running it once leaves,
  and the second run calls neither the engine nor the console: the trace does not grow.
  Run while the directive holds no chart, it does nothing but cancel a pending debounce
  timer and reset the scope's output binding and the initialised flag: no call of the
  engine, no message, no change of the registry.
\<close>

theorem destroy_idempotent:
  "destroy_handler e (destroy_handler e s) = destroy_handler e s
   \<and> trace (destroy_handler e (destroy_handler e s)) = trace (destroy_handler e s)
   \<and> (chart s = None \<longrightarrow>
        destroy_handler e s = (cancel_debounce s)\<lparr>chartInstance := None, isInitialized := False\<rparr>
      \<and> trace (destroy_handler e s) = trace s
      \<and> instances (destroy_handler e s) = instances s)"
proof -
  have 1: "destroy_handler e (destroy_handler e s) = destroy_handler e s"
    by (cases "debounceTimeout s"; cases "chart s")
       (simp_all add: destroy_handler_def cancel_debounce_def cancel_def factory_destroy_def
          emit_def Let_def split: option.splits)
  have 3: "chart s = None \<longrightarrow>
        destroy_handler e s = (cancel_debounce s)\<lparr>chartInstance := None, isInitialized := False\<rparr>
      \<and> trace (destroy_handler e s) = trace s \<and> instances (destroy_handler e s) = instances s"
    by (cases "debounceTimeout s")
       (simp_all add: destroy_handler_def cancel_debounce_def cancel_def Let_def)
  have 2: "trace (destroy_handler e (destroy_handler e s)) = trace (destroy_handler e s)"
    by (simp only: 1)
  show ?thesis
    by (rule conjI[OF 1 conjI[OF 2 3]])
qed

theorem destroy_idempotent_witness:
  "chart (link []) = None
   \<and> trace (destroy_handler quiet (link [])) = trace (link [])
   \<and> instances (destroy_handler quiet (link [])) = instances (link [])
   \<and> destroy_handler quiet (destroy_handler quiet
         (run_events quiet (link []) [LoadResolved, EngineReady 0, Timeout 0, Timeout 1]))
       = destroy_handler quiet
         (run_events quiet (link []) [LoadResolved, EngineReady 0, Timeout 0, Timeout 1])"
proof -
  have a: "chart (link []) = None" by code_simp
  note none = destroy_idempotent[of quiet "link []", THEN conjunct2, THEN conjunct2, THEN mp, OF a]
  note twice = destroy_idempotent[of quiet
      "run_events quiet (link []) [LoadResolved, EngineReady 0, Timeout 0, Timeout 1]",
      THEN conjunct1]
  show ?thesis
    by (rule conjI[OF a conjI[OF none[THEN conjunct2, THEN conjunct1]
          conjI[OF none[THEN conjunct2, THEN conjunct2] twice]]])
qed

subsection \<open>Events after teardown\<close>

lemma map_of_snoc_fresh:
  "\<forall>t \<in> set xs. fst t < (n::nat) \<Longrightarrow> map_of (xs @ [(n, v)]) n = Some v"
  by (induction xs) auto

lemma fire_fresh:
  assumes "\<forall>t \<in> set (tasks s). fst t < next_task s"
  shows "timeout_fire e (next_task s) (timeout_add t s)
           = run_task e t (s\<lparr>next_task := Suc (next_task s)\<rparr>)"
proof -
  have "map_of (tasks s @ [(next_task s, t)]) (next_task s) = Some t"
    using assms by (rule map_of_snoc_fresh)
  moreover have "filter (\<lambda>x. fst x \<noteq> next_task s) (tasks s) = tasks s"
    using assms by (induction "tasks s") (auto simp: filter_id_conv)
  ultimately show ?thesis
    by (simp add: timeout_fire_def timeout_add_def cancel_def del: map_of_append)
qed

text \<open>
  C7, as amended. The event handlers do not look at the state of the chart. When the
  engine calls a handler of a destroyed directive, the handler defers the call of the
  scope's callback as always, and the callback is invoked, with \<open>null\<close> for the chart,
  which is what the variable \<open>chart\<close> holds after teardown. A function made by
  \<open>jscEventService.wrapCallback\<close> invokes its callback with the chart it captured.
\<close>

theorem stale_event_delivered:
  assumes "s = run_events e (link sc) evs"
    and "name \<in> set (map fst wired)" and "truthy (lookup (bindings s) name)"
    and "0 < charts_made s"
  shows "trace (run_events e s [Destroy, HandlerCalled name args, Timeout (next_task s)])
           = trace (step e s Destroy) @ [Scope_call name args None]
     \<and> trace (timeout_fire e (next_task s) (wrapCallback callback c eventType jscEvent (step e s Destroy)))
           = trace (step e s Destroy) @ [Service_call callback jscEvent c eventType (date_now e)]"
proof -
  let ?d = "step e s Destroy"
  from assms(1) have "invariant s" by (simp add: inv_reachable)
  then have "invariant ?d" by (rule inv_step)
  then have fresh: "\<forall>t \<in> set (tasks ?d). fst t < next_task ?d" by (simp add: invariant_def)
  have same: "next_task ?d = next_task s" "bindings ?d = bindings s" "charts_made ?d = charts_made s"
    "chart ?d = None"
    by (auto simp: destroy_handler_def cancel_debounce_def cancel_def factory_destroy_def
        emit_def Let_def split: option.splits)
  have h: "handler_called name args ?d = timeout_add (Deliver name args) ?d"
    using assms(2,3,4) same by (simp add: handler_called_def)
  have "run_events e s [Destroy, HandlerCalled name args, Timeout (next_task s)]
          = timeout_fire e (next_task ?d) (timeout_add (Deliver name args) ?d)"
    using h same(1) by (simp add: run_events_def)
  also have "\<dots> = run_task e (Deliver name args) (?d\<lparr>next_task := Suc (next_task ?d)\<rparr>)"
    using fresh by (rule fire_fresh)
  finally have 1: "trace (run_events e s [Destroy, HandlerCalled name args, Timeout (next_task s)])
           = trace ?d @ [Scope_call name args None]"
    using same(4) by (simp add: run_task_def emit_def)
  have "timeout_fire e (next_task s) (wrapCallback callback c eventType jscEvent ?d)
          = timeout_fire e (next_task ?d) (timeout_add (ServiceDeliver callback c eventType jscEvent) ?d)"
    using same(1) by (simp add: wrapCallback_def)
  also have "\<dots> = run_task e (ServiceDeliver callback c eventType jscEvent)
                     (?d\<lparr>next_task := Suc (next_task ?d)\<rparr>)"
    using fresh by (rule fire_fresh)
  finally have 2: "trace (timeout_fire e (next_task s) (wrapCallback callback c eventType jscEvent ?d))
           = trace ?d @ [Service_call callback jscEvent c eventType (date_now e)]"
    by (simp add: run_task_def emit_def)
  from 1 2 show ?thesis by simp
qed

theorem stale_event_delivered_witness:
  "''onClick'' \<in> set (map fst wired)
   \<and> truthy (lookup (bindings (run_events quiet (link [(''onClick'', JFun ''cb'')])
        [LoadResolved, EngineReady 0, Timeout 0, Timeout 1])) ''onClick'')
   \<and> 0 < charts_made (run_events quiet (link [(''onClick'', JFun ''cb'')])
        [LoadResolved, EngineReady 0, Timeout 0, Timeout 1])
   \<and> trace (run_events quiet
        (run_events quiet (link [(''onClick'', JFun ''cb'')])
           [LoadResolved, EngineReady 0, Timeout 0, Timeout 1])
        [Destroy, HandlerCalled ''onClick'' (JStr ''click''), Timeout 2])
     = trace (step quiet (run_events quiet (link [(''onClick'', JFun ''cb'')])
           [LoadResolved, EngineReady 0, Timeout 0, Timeout 1]) Destroy)
       @ [Scope_call ''onClick'' (JStr ''click'') None]"
proof -
  let ?s = "run_events quiet (link [(''onClick'', JFun ''cb'')])
        [LoadResolved, EngineReady 0, Timeout 0, Timeout 1]"
  have a: "''onClick'' \<in> set (map fst wired)" by code_simp
  have b: "truthy (lookup (bindings ?s) ''onClick'')" by code_simp
  have c: "0 < charts_made ?s" by code_simp
  have n: "next_task ?s = 2" by code_simp
  from stale_event_delivered[OF refl a b c, of "JStr ''click''"] a b c n
  show ?thesis by simp
qed

text \<open>
  C7 as stated fails: after the chart has been destroyed, the engine calls the click
  handler, and the scope's \<open>onClick\<close> callback is invoked.
\<close>

theorem stale_event_counterexample:
  "trace (run_events quiet (link [(''onClick'', JFun ''cb'')])
      [LoadResolved, EngineReady 0, Timeout 0, Timeout 1, Destroy,
       HandlerCalled ''onClick'' (JStr ''click''), Timeout 2])
   = [JSC_chart (JObj [(''debug'', JBool False), (''animation'', JObj [(''duration'', JNum 400)]),
        (''events'', JObj [(''click'', wrapper ''onClick'')])]),
      Chart_destroy 0,
      Scope_call ''onClick'' (JStr ''click'') None]"
  by code_simp

subsection \<open>Failed initialisation\<close>

text \<open>
  C8, as amended. When the module load is rejected, the directive ends unmounted: it
  holds no chart, is not initialised, \<open>initializationInProgress\<close> is reset, the registry
  is untouched and one error is written to the console. When \<open>JSC.chart\<close> throws,
  \<open>createSync\<close> writes one error to the console and returns \<open>null\<close>: the directive holds
  no chart, is not initialised, and no chart is registered or awaited. In both cases an
  update recorded earlier stays pending, and the error goes to the console only.
\<close>

theorem failed_initialisation:
  assumes "s = run_events e (link sc) evs" and "loading s = config # rest"
  shows "chart (step e s LoadRejected) = None
     \<and> \<not> isInitialized (step e s LoadRejected)
     \<and> phase_of (step e s LoadRejected) = Unmounted
     \<and> instances (step e s LoadRejected) = instances s
     \<and> pendingUpdate (step e s LoadRejected) = pendingUpdate s
     \<and> trace (step e s LoadRejected) = trace s @ [Console_error ''Failed to load chart modules:'']
     \<and> (element_present e \<and> available e \<and> mergeWithDefaults (defaults e) config = Inr merged
          \<and> create_throws e merged \<longrightarrow>
           chart (step e s LoadResolved) = None
         \<and> \<not> isInitialized (step e s LoadResolved)
         \<and> instances (step e s LoadResolved) = instances s
         \<and> awaiting (step e s LoadResolved) = awaiting s
         \<and> pendingUpdate (step e s LoadResolved) = pendingUpdate s
         \<and> trace (step e s LoadResolved)
             = trace s @ [JSC_chart merged, Console_error ''Error creating chart:''])"
proof -
  from assms(1) have "invariant s" by (simp add: inv_reachable)
  with assms(2) have c: "chart s = None" and i: "\<not> isInitialized s"
    by (auto simp: invariant_def)
  from c i assms(2) show ?thesis
    by (simp add: load_rejected_def load_resolved_def createSync_def emit_def phase_of_def Let_def)
qed

theorem failed_initialisation_witness:
  "loading (run_events (quiet\<lparr>create_throws := (\<lambda>config. True)\<rparr>) (link []) [])
     = [JObj [(''events'', JObj [])]]
   \<and> element_present (quiet\<lparr>create_throws := (\<lambda>config. True)\<rparr>)
   \<and> available (quiet\<lparr>create_throws := (\<lambda>config. True)\<rparr>)
   \<and> mergeWithDefaults (defaults (quiet\<lparr>create_throws := (\<lambda>config. True)\<rparr>))
        (JObj [(''events'', JObj [])])
      = Inr (JObj [(''debug'', JBool False), (''animation'', JObj [(''duration'', JNum 400)]),
                   (''events'', JObj [])])
   \<and> create_throws (quiet\<lparr>create_throws := (\<lambda>config. True)\<rparr>)
        (JObj [(''debug'', JBool False), (''animation'', JObj [(''duration'', JNum 400)]),
               (''events'', JObj [])])
   \<and> phase_of (step (quiet\<lparr>create_throws := (\<lambda>config. True)\<rparr>)
        (run_events (quiet\<lparr>create_throws := (\<lambda>config. True)\<rparr>) (link []) []) LoadRejected)
      = Unmounted
   \<and> chart (step (quiet\<lparr>create_throws := (\<lambda>config. True)\<rparr>)
        (run_events (quiet\<lparr>create_throws := (\<lambda>config. True)\<rparr>) (link []) []) LoadResolved)
      = None
   \<and> trace (step (quiet\<lparr>create_throws := (\<lambda>config. True)\<rparr>)
        (run_events (quiet\<lparr>create_throws := (\<lambda>config. True)\<rparr>) (link []) []) LoadResolved)
      = trace (run_events (quiet\<lparr>create_throws := (\<lambda>config. True)\<rparr>) (link []) [])
        @ [JSC_chart (JObj [(''debug'', JBool False), (''animation'', JObj [(''duration'', JNum 400)]),
               (''events'', JObj [])]),
           Console_error ''Error creating chart:'']"
proof -
  let ?e = "quiet\<lparr>create_throws := (\<lambda>config. True)\<rparr>"
  have l: "loading (run_events ?e (link []) []) = [JObj [(''events'', JObj [])]]" by code_simp
  have p: "element_present ?e" "available ?e" by code_simp+
  have m: "mergeWithDefaults (defaults ?e) (JObj [(''events'', JObj [])])
      = Inr (JObj [(''debug'', JBool False), (''animation'', JObj [(''duration'', JNum 400)]),
                   (''events'', JObj [])])" by code_simp
  have t: "create_throws ?e (JObj [(''debug'', JBool False),
              (''animation'', JObj [(''duration'', JNum 400)]), (''events'', JObj [])])"
    by code_simp
  from failed_initialisation[OF refl l, of
      "JObj [(''debug'', JBool False), (''animation'', JObj [(''duration'', JNum 400)]),
                   (''events'', JObj [])]"] l p m t
  show ?thesis by simp
qed

text \<open>
  C8 as stated fails. After \<open>JSC.chart\<close> has thrown, \<open>initializationInProgress\<close> is
  still set although nothing is loading, so the directive is not unmounted. And an
  update that a debounce timer recorded during a reload stays pending after the load
  has been rejected.
\<close>

theorem failed_initialisation_counterexample:
  "phase_of (run_events (quiet\<lparr>create_throws := (\<lambda>config. True)\<rparr>) (link []) [LoadResolved])
     = Loading
   \<and> initializationInProgress
       (run_events (quiet\<lparr>create_throws := (\<lambda>config. True)\<rparr>) (link []) [LoadResolved])
   \<and> loading (run_events (quiet\<lparr>create_throws := (\<lambda>config. True)\<rparr>) (link []) [LoadResolved]) = []
   \<and> pendingUpdate (run_events quiet (link [(''options'', JObj [(''a'', JNum 1)])])
        [LoadResolved, EngineReady 0, Timeout 0, Timeout 1,
         OptionsChanged (JObj [(''a'', JNum 2)]), TypeChanged (JStr ''gantt''), Timeout 2,
         LoadRejected])
     = Some (JObj [(''a'', JNum 2), (''type'', JStr ''gantt''), (''events'', JObj [])])"
  by code_simp

subsection \<open>The fingerprint gate of the watchers\<close>

text \<open>
  C9, as amended. The listeners of \<open>options\<close> and \<open>series\<close> compute the fingerprint of
  the new value and compare it with the cached one: when they are equal the listener
  changes nothing, and neither listener ever calls the engine itself. The listeners of
  \<open>palette\<close> and \<open>muted\<close> compute no fingerprint: whenever the new value is not
  identical to the old one and a chart exists, they call \<open>chart.options\<close> at once.
\<close>

theorem fingerprint_gate:
  "(computeHash v = lastOptionsHash s \<longrightarrow> options_listener v s = s)
   \<and> (computeHash v = lastSeriesHash s \<longrightarrow> series_listener v s = s)
   \<and> trace (options_listener v s) = trace s
   \<and> trace (series_listener v s) = trace s
   \<and> (chart s = Some c \<and> strict_neq same v old \<longrightarrow>
        trace (field_listener e field same v old s)
          = trace s @ Chart_options c (JObj [(field, v)])
              # (if options_throws e c (JObj [(field, v)]) then [Uncaught EngineError] else []))"
  by (simp add: options_listener_def series_listener_def field_listener_def scheduleUpdate_def
      cancel_debounce_def cancel_def timeout_add_def options_bare_def emit_def Let_def
      split: option.splits)

theorem fingerprint_gate_witness:
  "computeHash (JObj [(''a'', JNum 1)])
     = lastOptionsHash (run_events quiet (link [(''options'', JObj [(''a'', JNum 1)])])
         [LoadResolved, EngineReady 0, Timeout 0, Timeout 1])
   \<and> options_listener (JObj [(''a'', JNum 1)])
        (run_events quiet (link [(''options'', JObj [(''a'', JNum 1)])])
           [LoadResolved, EngineReady 0, Timeout 0, Timeout 1])
     = run_events quiet (link [(''options'', JObj [(''a'', JNum 1)])])
           [LoadResolved, EngineReady 0, Timeout 0, Timeout 1]
   \<and> computeHash JNull
     = lastSeriesHash (run_events quiet (link [(''options'', JObj [(''a'', JNum 1)])])
         [LoadResolved, EngineReady 0, Timeout 0, Timeout 1])
   \<and> series_listener JNull
        (run_events quiet (link [(''options'', JObj [(''a'', JNum 1)])])
           [LoadResolved, EngineReady 0, Timeout 0, Timeout 1])
     = run_events quiet (link [(''options'', JObj [(''a'', JNum 1)])])
           [LoadResolved, EngineReady 0, Timeout 0, Timeout 1]
   \<and> chart (run_events quiet (link [(''options'', JObj [(''a'', JNum 1)])])
         [LoadResolved, EngineReady 0, Timeout 0, Timeout 1]) = Some 0
   \<and> strict_neq False (JArr [JStr ''red'']) (JArr [JStr ''red''])
   \<and> trace (field_listener quiet ''palette'' False (JArr [JStr ''red'']) (JArr [JStr ''red''])
        (run_events quiet (link [(''options'', JObj [(''a'', JNum 1)])])
           [LoadResolved, EngineReady 0, Timeout 0, Timeout 1]))
     = trace (run_events quiet (link [(''options'', JObj [(''a'', JNum 1)])])
           [LoadResolved, EngineReady 0, Timeout 0, Timeout 1])
       @ [Chart_options 0 (JObj [(''palette'', JArr [JStr ''red''])])]"
proof -
  let ?s = "run_events quiet (link [(''options'', JObj [(''a'', JNum 1)])])
         [LoadResolved, EngineReady 0, Timeout 0, Timeout 1]"
  have a: "computeHash (JObj [(''a'', JNum 1)]) = lastOptionsHash ?s" by code_simp
  have b: "computeHash JNull = lastSeriesHash ?s" by code_simp
  have c: "chart ?s = Some 0" by code_simp
  have d: "strict_neq False (JArr [JStr ''red'']) (JArr [JStr ''red''])" by code_simp
  have t: "\<not> options_throws quiet 0 (JObj [(''palette'', JArr [JStr ''red''])])" by code_simp
  from fingerprint_gate[where v = "JObj [(''a'', JNum 1)]" and s = ?s]
    fingerprint_gate[where v = JNull and s = ?s and c = 0 and same = False
      and old = "JArr [JStr ''red'']" and e = quiet and field = "''palette''"]
    fingerprint_gate[where v = "JArr [JStr ''red'']" and s = ?s and c = 0 and same = False
      and old = "JArr [JStr ''red'']" and e = quiet and field = "''palette''"]
    a b c d t
  show ?thesis by simp
qed

text \<open>
  C9 as stated fails for \<open>palette\<close>: a new array with the contents of the old one has
  the fingerprint of the old one, and the engine is updated all the same.
\<close>

theorem fingerprint_gate_counterexample:
  "computeHash (JArr [JStr ''red''])
     = computeHash (lookup (bindings (run_events quiet (link [(''palette'', JArr [JStr ''red''])])
         [LoadResolved, EngineReady 0, Timeout 0, Timeout 1])) ''palette'')
   \<and> trace (run_events quiet (link [(''palette'', JArr [JStr ''red''])])
        [LoadResolved, EngineReady 0, Timeout 0, Timeout 1,
         PaletteChanged (JArr [JStr ''red'']) False])
     = [JSC_chart (JObj [(''debug'', JBool False), (''animation'', JObj [(''duration'', JNum 400)]),
           (''palette'', JArr [JStr ''red'']), (''events'', JObj [])]),
        Chart_options 0 (JObj [(''palette'', JArr [JStr ''red''])])]"
  by code_simp

subsection \<open>The pending update\<close>




end
